theory Spec2Isabelle
  imports Complex_Main
begin

section \<open>Numeric model\<close>

text \<open>
  The script \<^verbatim>\<open>pairs_trading.py\<close> computes on pandas columns of 64-bit floats.  A column
  cell is modelled as a \<open>real option\<close>: \<open>Some x\<close> is a finite number and \<open>None\<close> is
  pandas' NaN, the missing-value marker that \<^verbatim>\<open>shift\<close>, \<^verbatim>\<open>diff\<close> and
  \<^verbatim>\<open>pct_change\<close> put into the first row and that \<^verbatim>\<open>fillna\<close>, \<^verbatim>\<open>sum\<close>,
  \<^verbatim>\<open>std\<close> and \<^verbatim>\<open>cumprod\<close> treat specially.  Rounding, overflow and the two
  infinities are not represented: finite values are exact reals.  A comparison with NaN is
  false, whichever side it is on, and arithmetic with NaN gives NaN.
\<close>

type_synonym float64 = "real option"

definition fgt :: "float64 \<Rightarrow> float64 \<Rightarrow> bool" where
  "fgt a b = (case a of None \<Rightarrow> False | Some x \<Rightarrow> (case b of None \<Rightarrow> False | Some y \<Rightarrow> y < x))"

definition flt :: "float64 \<Rightarrow> float64 \<Rightarrow> bool" where
  "flt a b = (case a of None \<Rightarrow> False | Some x \<Rightarrow> (case b of None \<Rightarrow> False | Some y \<Rightarrow> x < y))"

definition fneg :: "float64 \<Rightarrow> float64" where
  "fneg a = map_option uminus a"


section \<open>Signal generation\<close>

text \<open>
  \<^verbatim>\<open>generate_trading_signals\<close>, lines 175 to 199: the loop that fills the
  \<^verbatim>\<open>signal\<close> column from the \<^verbatim>\<open>z_score\<close> column.  \<open>signal_step\<close> is the loop body,
  with the \<^verbatim>\<open>if\<close>/\<^verbatim>\<open>elif\<close> chain in the order of the source; a branch whose condition
  fails leaves \<^verbatim>\<open>position\<close> as it was.
\<close>

definition signal_step :: "float64 \<Rightarrow> float64 \<Rightarrow> float64 \<Rightarrow> int \<Rightarrow> float64 \<Rightarrow> int" where
  "signal_step entry_threshold exit_threshold stop_loss position z =
     (if position = 0 then
        (if fgt z entry_threshold then - 1
         else if flt z (fneg entry_threshold) then 1
         else position)
      else if position = 1 then
        (if fgt z exit_threshold \<or> fgt z stop_loss then 0 else position)
      else if position = - 1 then
        (if flt z (fneg exit_threshold) \<or> flt z (fneg stop_loss) then 0 else position)
      else position)"

text \<open>
  The iterations \<^verbatim>\<open>for i in range(1, len(signals))\<close>: each one reads \<^verbatim>\<open>z_score.iloc[i]\<close>,
  updates \<^verbatim>\<open>position\<close> and writes it into row \<open>i\<close>.
\<close>

fun signal_loop :: "float64 \<Rightarrow> float64 \<Rightarrow> float64 \<Rightarrow> int \<Rightarrow> float64 list \<Rightarrow> int list" where
  "signal_loop entry_threshold exit_threshold stop_loss position [] = []"
| "signal_loop entry_threshold exit_threshold stop_loss position (z # zs) =
     (let position' = signal_step entry_threshold exit_threshold stop_loss position z
      in position' # signal_loop entry_threshold exit_threshold stop_loss position' zs)"

text \<open>
  The whole \<^verbatim>\<open>signal\<close> column.  The column is created as all zeros, \<^verbatim>\<open>position\<close> starts
  at 0 and the loop starts at row 1, so row 0 keeps its 0 and its z-score is never read.
\<close>

definition signal_column :: "float64 \<Rightarrow> float64 \<Rightarrow> float64 \<Rightarrow> float64 list \<Rightarrow> int list" where
  "signal_column entry_threshold exit_threshold stop_loss z_col =
     (case z_col of
        [] \<Rightarrow> []
      | z0 # zs \<Rightarrow> 0 # signal_loop entry_threshold exit_threshold stop_loss 0 zs)"


subsection \<open>The transition table of the specification\<close>

text \<open>
  The table of the design document, row by row, on a three-valued state; where two rows of
  a state both apply the upper one is taken.  The machine starts flat at \<open>t = 0\<close> and carries
  the previous state forward.
\<close>

datatype spread_state = Flat | LongSpread | ShortSpread

fun position_of :: "spread_state \<Rightarrow> int" where
  "position_of Flat = 0"
| "position_of LongSpread = 1"
| "position_of ShortSpread = - 1"

fun table_next :: "float64 \<Rightarrow> float64 \<Rightarrow> float64 \<Rightarrow> spread_state \<Rightarrow> float64 \<Rightarrow> spread_state" where
  "table_next entry exit stop Flat z =
     (if fgt z entry then ShortSpread else if flt z (fneg entry) then LongSpread else Flat)"
| "table_next entry exit stop LongSpread z =
     (if fgt z exit \<or> fgt z stop then Flat else LongSpread)"
| "table_next entry exit stop ShortSpread z =
     (if flt z (fneg exit) \<or> flt z (fneg stop) then Flat else ShortSpread)"

fun table_from :: "float64 \<Rightarrow> float64 \<Rightarrow> float64 \<Rightarrow> spread_state \<Rightarrow> float64 list \<Rightarrow> spread_state list" where
  "table_from entry exit stop st [] = []"
| "table_from entry exit stop st (z # zs) =
     table_next entry exit stop st z # table_from entry exit stop (table_next entry exit stop st z) zs"

definition table_run :: "float64 \<Rightarrow> float64 \<Rightarrow> float64 \<Rightarrow> float64 list \<Rightarrow> spread_state list" where
  "table_run entry exit stop z_col =
     (case z_col of [] \<Rightarrow> [] | z0 # zs \<Rightarrow> Flat # table_from entry exit stop Flat zs)"


section \<open>Backtest\<close>

subsection \<open>Arithmetic on cells\<close>

text \<open>
  Elementwise arithmetic of two columns: NaN in either operand gives NaN.  A division by
  zero gives an infinity or NaN in numpy, never an exception; the model has no infinities and
  gives \<open>None\<close> there.  The only divisors of the backtest are the previous price in
  \<^verbatim>\<open>pct_change\<close> (prices are positive), the volatility behind its guard, and the constant 2.
\<close>

definition fadd :: "float64 \<Rightarrow> float64 \<Rightarrow> float64" where
  "fadd a b = (case a of None \<Rightarrow> None | Some x \<Rightarrow> map_option (\<lambda>y. x + y) b)"

definition fsub :: "float64 \<Rightarrow> float64 \<Rightarrow> float64" where
  "fsub a b = (case a of None \<Rightarrow> None | Some x \<Rightarrow> map_option (\<lambda>y. x - y) b)"

definition fmul :: "float64 \<Rightarrow> float64 \<Rightarrow> float64" where
  "fmul a b = (case a of None \<Rightarrow> None | Some x \<Rightarrow> map_option (\<lambda>y. x * y) b)"

definition fdiv :: "float64 \<Rightarrow> float64 \<Rightarrow> float64" where
  "fdiv a b =
     (case a of None \<Rightarrow> None
      | Some x \<Rightarrow> (case b of None \<Rightarrow> None | Some y \<Rightarrow> if y = 0 then None else Some (x / y)))"

definition fabs :: "float64 \<Rightarrow> float64" where
  "fabs a = map_option abs a"

text \<open>
  \<^verbatim>\<open>base ** y\<close> on a numpy float: a positive base is raised as usual, a negative base has a
  power only for an integral exponent (NaN otherwise), zero to a negative power is infinite.
\<close>

definition fpow :: "float64 \<Rightarrow> real \<Rightarrow> float64" where
  "fpow b y =
     (case b of
        None \<Rightarrow> (if y = 0 then Some 1 else None)
      | Some x \<Rightarrow>
          if 0 < x then Some (x powr y)
          else if y \<in> \<int> then (if x = 0 \<and> y < 0 then None else Some (x powi \<lfloor>y\<rfloor>))
          else if x = 0 \<and> 0 < y then Some 0
          else None)"

subsection \<open>The pandas column operations the backtest uses\<close>

text \<open>\<^verbatim>\<open>pct_change\<close>: NaN in row 0, then \<open>x\<^sub>t / x\<^sub>t\<^sub>-\<^sub>1 - 1\<close>.\<close>

definition pct_change :: "real list \<Rightarrow> float64 list" where
  "pct_change xs =
     (case xs of
        [] \<Rightarrow> []
      | x # rest \<Rightarrow> None # map2 (\<lambda>prev cur. fsub (fdiv (Some cur) (Some prev)) (Some 1)) xs rest)"

text \<open>\<^verbatim>\<open>shift(1)\<close>: every value moves one row down, row 0 becomes NaN, the last value drops out.\<close>

definition shift1 :: "real list \<Rightarrow> float64 list" where
  "shift1 xs = (case xs of [] \<Rightarrow> [] | x # rest \<Rightarrow> None # map Some (butlast xs))"

definition fillna :: "real \<Rightarrow> float64 list \<Rightarrow> float64 list" where
  "fillna v xs = map (\<lambda>c. case c of None \<Rightarrow> Some v | Some x \<Rightarrow> Some x) xs"

text \<open>\<^verbatim>\<open>diff()\<close>: NaN in row 0, then \<open>x\<^sub>t - x\<^sub>t\<^sub>-\<^sub>1\<close>.\<close>

definition diff :: "real list \<Rightarrow> float64 list" where
  "diff xs =
     (case xs of [] \<Rightarrow> [] | x # rest \<Rightarrow> None # map2 (\<lambda>prev cur. Some (cur - prev)) xs rest)"

fun dropna :: "float64 list \<Rightarrow> real list" where
  "dropna [] = []"
| "dropna (None # xs) = dropna xs"
| "dropna (Some x # xs) = x # dropna xs"

text \<open>\<^verbatim>\<open>sum()\<close> skips NaN; the sum of no values is 0.\<close>

definition nansum :: "float64 list \<Rightarrow> real" where
  "nansum xs = sum_list (dropna xs)"

text \<open>
  \<^verbatim>\<open>std()\<close> skips NaN and divides by one less than the number of values left; with fewer
  than two values it is NaN.
\<close>

definition nanstd :: "float64 list \<Rightarrow> float64" where
  "nanstd xs =
     (let vs = dropna xs; n = length vs
      in if n < 2 then None
         else (let m = sum_list vs / real n
               in Some (sqrt (sum_list (map (\<lambda>v. (v - m)\<^sup>2) vs) / real (n - 1)))))"

text \<open>
  \<^verbatim>\<open>cumprod()\<close> skips NaN: a NaN cell stays NaN in the result and leaves the running product
  as it is.
\<close>

fun cumprod_from :: "real \<Rightarrow> float64 list \<Rightarrow> float64 list" where
  "cumprod_from acc [] = []"
| "cumprod_from acc (None # xs) = None # cumprod_from acc xs"
| "cumprod_from acc (Some x # xs) = Some (acc * x) # cumprod_from (acc * x) xs"

definition cumprod :: "float64 list \<Rightarrow> float64 list" where
  "cumprod xs = cumprod_from 1 xs"

datatype py_error = IndexError | ValueError | LinAlgError

text \<open>\<^verbatim>\<open>.iloc[-1]\<close>: the last cell; on an empty column pandas raises \<^verbatim>\<open>IndexError\<close>.\<close>

definition iloc_last :: "'a list \<Rightarrow> py_error + 'a" where
  "iloc_last xs = (case xs of [] \<Rightarrow> Inl IndexError | x # rest \<Rightarrow> Inr (last xs))"

subsection \<open>\<^verbatim>\<open>backtest_pairs_strategy\<close>\<close>

text \<open>
  A row of the \<^verbatim>\<open>signals\<close> frame that \<^verbatim>\<open>generate_trading_signals\<close> returns, and the
  dictionary that the backtest returns.  Prices are finite numbers; the \<^verbatim>\<open>signal\<close> column is
  an integer column.
\<close>

record signal_row =
  price_a :: real
  price_b :: real
  spread :: float64
  z_score :: float64
  signal :: int

record backtest_result =
  total_return :: float64
  annual_return :: float64
  volatility :: float64
  sharpe_ratio :: float64
  num_trades :: float64
  cumulative_returns :: "float64 list"
  net_returns :: "float64 list"

definition backtest_pairs_strategy :: "signal_row list \<Rightarrow> real \<Rightarrow> py_error + backtest_result" where
  "backtest_pairs_strategy signals transaction_cost =
     (let returns_a = pct_change (map price_a signals);
          returns_b = pct_change (map price_b signals);
          position = fillna 0 (shift1 (map (\<lambda>r. real_of_int (signal r)) signals));
          spread_returns = map2 fmul position (map2 fsub returns_a returns_b);
          position_changes = map fabs (diff (map (\<lambda>r. real_of_int (signal r)) signals));
          costs = map (\<lambda>c. fmul c (Some transaction_cost)) position_changes;
          net = map2 fsub spread_returns costs;
          cumulative = map (\<lambda>c. fsub c (Some 1)) (cumprod (map (fadd (Some 1)) net))
      in case iloc_last cumulative of
           Inl e \<Rightarrow> Inl e
         | Inr total_ret \<Rightarrow>
             (let annual = fsub (fpow (fadd (Some 1) total_ret) (252 / real (length signals))) (Some 1);
                  vol = fmul (nanstd net) (Some (sqrt 252));
                  sharpe = (if fgt vol (Some 0) then fdiv annual vol else Some 0);
                  trades = fdiv (Some (nansum position_changes)) (Some 2)
              in Inr \<lparr>total_return = total_ret, annual_return = annual, volatility = vol,
                      sharpe_ratio = sharpe, num_trades = trades,
                      cumulative_returns = cumulative, net_returns = net\<rparr>))"


text \<open>
  Two of the intermediate columns of the backtest by name, for stating its properties:
  \<^verbatim>\<open>position_changes\<close> and \<^verbatim>\<open>net_returns\<close>.
\<close>

definition position_changes_col :: "signal_row list \<Rightarrow> float64 list" where
  "position_changes_col signals = map fabs (diff (map (\<lambda>r. real_of_int (signal r)) signals))"

definition net_returns_col :: "signal_row list \<Rightarrow> real \<Rightarrow> float64 list" where
  "net_returns_col signals transaction_cost =
     map2 fsub
       (map2 fmul (fillna 0 (shift1 (map (\<lambda>r. real_of_int (signal r)) signals)))
          (map2 fsub (pct_change (map price_a signals)) (pct_change (map price_b signals))))
       (map (\<lambda>c. fmul c (Some transaction_cost)) (position_changes_col signals))"


subsection \<open>The concrete scenarios of the design document\<close>

text \<open>
  Scenario 3: the thresholds \<open>entry = 1.2\<close>, \<open>exit = -0.8\<close>, \<open>stop_loss = 3.0\<close> and the
  z-score column \<open>[0, 0.5, 1.3, 0.9, -0.5]\<close> of the signal example.
\<close>

definition scenario3_entry :: float64 where
  "scenario3_entry = Some (12 / 10)"

definition scenario3_exit :: float64 where
  "scenario3_exit = Some (- (8 / 10))"

definition scenario3_stop :: float64 where
  "scenario3_stop = Some 3"

definition scenario3_z :: "float64 list" where
  "scenario3_z = [Some 0, Some (5 / 10), Some (13 / 10), Some (9 / 10), Some (- (5 / 10))]"

text \<open>
  Scenario 4: a frame with signal column \<open>[0, 0, 1, 1, 0]\<close> whose prices give
  \<open>returnA - returnB = [NaN, 0, 0.01, -0.02, 0]\<close>: B stays at 1, A goes
  \<open>100, 100, 101, 98.98, 98.98\<close>.  Row 0 has no return, as in every frame.  The
  \<^verbatim>\<open>spread\<close> and \<^verbatim>\<open>z_score\<close> cells are not read by the backtest.
\<close>

definition scenario4 :: "signal_row list" where
  "scenario4 =
     [\<lparr>price_a = 100, price_b = 1, spread = None, z_score = None, signal = 0\<rparr>,
      \<lparr>price_a = 100, price_b = 1, spread = None, z_score = None, signal = 0\<rparr>,
      \<lparr>price_a = 101, price_b = 1, spread = None, z_score = None, signal = 1\<rparr>,
      \<lparr>price_a = 9898 / 100, price_b = 1, spread = None, z_score = None, signal = 1\<rparr>,
      \<lparr>price_a = 9898 / 100, price_b = 1, spread = None, z_score = None, signal = 0\<rparr>]"

text \<open>A frame of three rows with constant prices and no position: every net return is 0.\<close>

definition flat_frame :: "signal_row list" where
  "flat_frame =
     [\<lparr>price_a = 10, price_b = 5, spread = None, z_score = None, signal = 0\<rparr>,
      \<lparr>price_a = 10, price_b = 5, spread = None, z_score = None, signal = 0\<rparr>,
      \<lparr>price_a = 10, price_b = 5, spread = None, z_score = None, signal = 0\<rparr>]"


section \<open>Pair scanner\<close>

text \<open>
  A pandas \<^verbatim>\<open>Series\<close> of prices is a list of (timestamp, price) pairs in index order; the
  timestamps of a price series are strictly increasing.  The instrument dictionary is the
  list of its items in insertion order, with distinct names.
\<close>

type_synonym series = "(nat \<times> real) list"

subsection \<open>\<^verbatim>\<open>calculate_correlation\<close>\<close>

text \<open>\<^verbatim>\<open>pct_change().dropna()\<close> on a series: the returns, without the NaN of the first row.\<close>

fun dropna_series :: "(nat \<times> float64) list \<Rightarrow> series" where
  "dropna_series [] = []"
| "dropna_series ((t, None) # rows) = dropna_series rows"
| "dropna_series ((t, Some x) # rows) = (t, x) # dropna_series rows"

definition series_returns :: "series \<Rightarrow> series" where
  "series_returns s = dropna_series (zip (map fst s) (pct_change (map snd s)))"

text \<open>\<^verbatim>\<open>a.index.intersection(b.index)\<close>: the labels of \<open>a\<close> that are labels of \<open>b\<close>.\<close>

definition index_intersection :: "nat list \<Rightarrow> nat list \<Rightarrow> nat list" where
  "index_intersection ia ib = filter (\<lambda>t. t \<in> set ib) ia"

text \<open>\<^verbatim>\<open>s.loc[idx]\<close>: the rows of \<open>s\<close> at the labels \<open>idx\<close>, all of which are labels of \<open>s\<close> here.\<close>

definition loc :: "nat list \<Rightarrow> series \<Rightarrow> series" where
  "loc idx s = List.map_filter (\<lambda>t. map_option (Pair t) (map_of s t)) idx"

text \<open>
  \<^verbatim>\<open>Series.corr\<close> on two series with the same index and no NaN: Pearson's coefficient.
  It is NaN for fewer than two rows and when one side has no variance (numpy divides 0 by 0).
\<close>

definition pearson :: "real list \<Rightarrow> real list \<Rightarrow> float64" where
  "pearson xs ys =
     (let n = length xs
      in if n < 2 then None
         else (let mx = sum_list xs / real n;
                   my = sum_list ys / real n;
                   sxy = sum_list (map2 (\<lambda>x y. (x - mx) * (y - my)) xs ys);
                   sxx = sum_list (map (\<lambda>x. (x - mx)\<^sup>2) xs);
                   syy = sum_list (map (\<lambda>y. (y - my)\<^sup>2) ys)
               in if sxx = 0 \<or> syy = 0 then None else Some (sxy / (sqrt sxx * sqrt syy))))"

definition calculate_correlation :: "series \<Rightarrow> series \<Rightarrow> float64" where
  "calculate_correlation pa pb =
     (let returns_a = series_returns pa;
          returns_b = series_returns pb;
          common_idx = index_intersection (map fst returns_a) (map fst returns_b)
      in pearson (map snd (loc common_idx returns_a)) (map snd (loc common_idx returns_b)))"

subsection \<open>\<^verbatim>\<open>cointegration_test\<close>\<close>

text \<open>
  The regression and the stationarity test are statsmodels' and are parameters of the model:
  \<open>ols pa pb\<close> stands for \<^verbatim>\<open>OLS(price_a, sm.add_constant(price_b)).fit()\<close> and gives the
  fitted parameters and the residuals, \<open>adfuller\<close> gives the test statistic, the p-value and
  the critical values.  Either may raise.  The p-value is a number.
\<close>

record ols_results =
  params :: "real list"
  resid :: "real list"

record adf_result =
  adf_stat :: real
  adf_pvalue :: real
  adf_critical :: "(string \<times> real) list"

record coint_result =
  cointegrated :: bool
  p_value :: real
  test_stat :: real
  alpha :: real
  beta :: real
  resid_std :: float64
  resid_mean :: float64
  critical_values :: "(string \<times> real) list"

text \<open>\<^verbatim>\<open>.iloc[i]\<close> raises \<^verbatim>\<open>IndexError\<close> beyond the last position.\<close>

definition iloc :: "'a list \<Rightarrow> nat \<Rightarrow> py_error + 'a" where
  "iloc xs i = (if i < length xs then Inr (xs ! i) else Inl IndexError)"

text \<open>\<^verbatim>\<open>mean()\<close>: NaN for no values.\<close>

definition fmean :: "real list \<Rightarrow> float64" where
  "fmean xs = (if xs = [] then None else Some (sum_list xs / real (length xs)))"

definition cointegration_test ::
  "(series \<Rightarrow> series \<Rightarrow> py_error + ols_results) \<Rightarrow> (real list \<Rightarrow> py_error + adf_result)
     \<Rightarrow> series \<Rightarrow> series \<Rightarrow> py_error + coint_result" where
  "cointegration_test ols adfuller pa pb =
     (case ols pa pb of
        Inl e \<Rightarrow> Inl e
      | Inr model \<Rightarrow>
          (case iloc (params model) 0 of
             Inl e \<Rightarrow> Inl e
           | Inr a \<Rightarrow>
               (case iloc (params model) 1 of
                  Inl e \<Rightarrow> Inl e
                | Inr b \<Rightarrow>
                    (let residuals = resid model
                     in case adfuller residuals of
                          Inl e \<Rightarrow> Inl e
                        | Inr adf \<Rightarrow>
                            Inr \<lparr>cointegrated = adf_pvalue adf < 5 / 100,
                                 p_value = adf_pvalue adf,
                                 test_stat = adf_stat adf,
                                 alpha = a,
                                 beta = b,
                                 resid_std = nanstd (map Some residuals),
                                 resid_mean = fmean residuals,
                                 critical_values = adf_critical adf\<rparr>))))"

subsection \<open>\<^verbatim>\<open>find_cointegrated_pairs\<close>\<close>

record pair_result = coint_result +
  stock_a :: string
  stock_b :: string
  correlation :: float64

text \<open>The check of lines 116 and 117, on the two series as they are in the dictionary.\<close>

definition below_min_periods :: "series \<Rightarrow> series \<Rightarrow> int \<Rightarrow> bool" where
  "below_min_periods pa pb min_periods =
     (int (length pa) < min_periods \<or> int (length pb) < min_periods)"

text \<open>
  The rest of the loop body, lines 119 to 136: the correlation filter, then the test inside
  \<^verbatim>\<open>try\<close>; \<^verbatim>\<open>except Exception\<close> skips the pair.  \<open>None\<close> is \<^verbatim>\<open>continue\<close>, \<open>Some r\<close>
  is the dictionary that is appended.
\<close>

definition test_pair ::
  "(series \<Rightarrow> series \<Rightarrow> py_error + ols_results) \<Rightarrow> (real list \<Rightarrow> py_error + adf_result)
     \<Rightarrow> real \<Rightarrow> string \<times> series \<Rightarrow> string \<times> series \<Rightarrow> pair_result option" where
  "test_pair ols adfuller threshold a b =
     (let corr = calculate_correlation (snd a) (snd b)
      in if flt corr (Some threshold) then None
         else (case cointegration_test ols adfuller (snd a) (snd b) of
                 Inl e \<Rightarrow> None
               | Inr c \<Rightarrow>
                   Some \<lparr>cointegrated = cointegrated c, p_value = p_value c,
                         test_stat = test_stat c, alpha = alpha c, beta = beta c,
                         resid_std = resid_std c, resid_mean = resid_mean c,
                         critical_values = critical_values c,
                         stock_a = fst a, stock_b = fst b, correlation = corr\<rparr>))"

definition scan_pair ::
  "(series \<Rightarrow> series \<Rightarrow> py_error + ols_results) \<Rightarrow> (real list \<Rightarrow> py_error + adf_result)
     \<Rightarrow> real \<Rightarrow> int \<Rightarrow> string \<times> series \<Rightarrow> string \<times> series \<Rightarrow> pair_result option" where
  "scan_pair ols adfuller threshold min_periods a b =
     (if below_min_periods (snd a) (snd b) min_periods then None
      else test_pair ols adfuller threshold a b)"

text \<open>
  The loop over \<open>j\<close> for a fixed \<open>i\<close> runs over the items after item \<open>i\<close>; the loop over \<open>i\<close>
  runs over all items.  \<open>results\<close> is the list that the body appends to.
\<close>

fun scan_inner ::
  "(series \<Rightarrow> series \<Rightarrow> py_error + ols_results) \<Rightarrow> (real list \<Rightarrow> py_error + adf_result)
     \<Rightarrow> real \<Rightarrow> int \<Rightarrow> string \<times> series \<Rightarrow> (string \<times> series) list \<Rightarrow> pair_result list
     \<Rightarrow> pair_result list" where
  "scan_inner ols adfuller threshold min_periods a [] results = results"
| "scan_inner ols adfuller threshold min_periods a (b # bs) results =
     scan_inner ols adfuller threshold min_periods a bs
       (case scan_pair ols adfuller threshold min_periods a b of
          None \<Rightarrow> results
        | Some r \<Rightarrow> results @ [r])"

fun scan_outer ::
  "(series \<Rightarrow> series \<Rightarrow> py_error + ols_results) \<Rightarrow> (real list \<Rightarrow> py_error + adf_result)
     \<Rightarrow> real \<Rightarrow> int \<Rightarrow> (string \<times> series) list \<Rightarrow> pair_result list \<Rightarrow> pair_result list" where
  "scan_outer ols adfuller threshold min_periods [] results = results"
| "scan_outer ols adfuller threshold min_periods (a # rest) results =
     scan_outer ols adfuller threshold min_periods rest
       (scan_inner ols adfuller threshold min_periods a rest results)"

text \<open>\<^verbatim>\<open>results.sort(key=...)\<close> is a stable sort by the p-value.\<close>

definition find_cointegrated_pairs ::
  "(series \<Rightarrow> series \<Rightarrow> py_error + ols_results) \<Rightarrow> (real list \<Rightarrow> py_error + adf_result)
     \<Rightarrow> (string \<times> series) list \<Rightarrow> real \<Rightarrow> int \<Rightarrow> pair_result list" where
  "find_cointegrated_pairs ols adfuller stock_prices threshold min_periods =
     sort_key p_value (scan_outer ols adfuller threshold min_periods stock_prices [])"

subsection \<open>Alignment and the pairs of the design document\<close>

text \<open>
  The alignment of two price series onto their common timestamps, as
  \<^verbatim>\<open>run_full_analysis\<close> does it in lines 264 to 266.
\<close>

definition align :: "series \<Rightarrow> series \<Rightarrow> series \<times> series" where
  "align pa pb =
     (let common_idx = index_intersection (map fst pa) (map fst pb)
      in (loc common_idx pa, loc common_idx pb))"

text \<open>All unordered pairs of a list, each once, in the order of the two loops.\<close>

fun unordered_pairs :: "'a list \<Rightarrow> ('a \<times> 'a) list" where
  "unordered_pairs [] = []"
| "unordered_pairs (a # rest) = map (Pair a) rest @ unordered_pairs rest"

text \<open>
  Two price series of three points each that share only the timestamps 2 and 3.
\<close>

definition overlap_a :: series where
  "overlap_a = [(1, 10), (2, 11), (3, 12)]"

definition overlap_b :: series where
  "overlap_b = [(2, 5), (3, 6), (4, 7)]"


subsection \<open>The regression of the library\<close>

text \<open>
  A model of the library call \<^verbatim>\<open>OLS(price_a, sm.add_constant(price_b)).fit()\<close> in exact
  arithmetic, to instantiate the parameter \<open>ols\<close> with.
  \<^item> statsmodels refuses two pandas inputs whose indexes differ (\<^verbatim>\<open>ValueError\<close>: the indices
    for endog and exog are not aligned), and an empty input.
  \<^item> \<^verbatim>\<open>add_constant\<close> adds no column of ones when the data already are a constant other than
    zero; the fit then has the single parameter \<open>\<Sum>xy / \<Sum>x\<^sup>2\<close>.
  \<^item> Otherwise the fit has two parameters, intercept and slope.  With some variance in \<open>x\<close>
    they are the least-squares solution; for \<open>x\<close> all zeros the pseudo-inverse gives the
    solution of least norm, intercept \<open>mean y\<close> and slope 0.
\<close>

definition mean :: "real list \<Rightarrow> real" where
  "mean xs = sum_list xs / real (length xs)"

definition sum_sq_dev :: "real list \<Rightarrow> real" where
  "sum_sq_dev xs = sum_list (map (\<lambda>x. (x - mean xs)\<^sup>2) xs)"

definition sum_cross_dev :: "real list \<Rightarrow> real list \<Rightarrow> real" where
  "sum_cross_dev xs ys = sum_list (map2 (\<lambda>x y. (x - mean xs) * (y - mean ys)) xs ys)"

definition nonzero_constant :: "real list \<Rightarrow> bool" where
  "nonzero_constant xs = (xs \<noteq> [] \<and> list_all (\<lambda>x. x = hd xs) xs \<and> hd xs \<noteq> 0)"

definition ols_slope :: "real list \<Rightarrow> real list \<Rightarrow> real" where
  "ols_slope x y = sum_cross_dev x y / sum_sq_dev x"

definition ols_intercept :: "real list \<Rightarrow> real list \<Rightarrow> real" where
  "ols_intercept x y = mean y - ols_slope x y * mean x"

definition ols_residuals :: "real \<Rightarrow> real \<Rightarrow> real list \<Rightarrow> real list \<Rightarrow> real list" where
  "ols_residuals a b x y = map2 (\<lambda>yv xv. yv - (a + b * xv)) y x"

definition sm_ols :: "series \<Rightarrow> series \<Rightarrow> py_error + ols_results" where
  "sm_ols pa pb =
     (if map fst pa = map fst pb then
        (if pa = [] then Inl ValueError
         else
           (let y = map snd pa; x = map snd pb
            in if nonzero_constant x then
                 (let b = sum_list (map2 (\<lambda>xv yv. xv * yv) x y) / sum_list (map (\<lambda>xv. xv\<^sup>2) x)
                  in Inr \<lparr>params = [b], resid = map2 (\<lambda>yv xv. yv - b * xv) y x\<rparr>)
               else if sum_sq_dev x = 0 then
                 Inr \<lparr>params = [mean y, 0], resid = ols_residuals (mean y) 0 x y\<rparr>
               else
                 Inr \<lparr>params = [ols_intercept x y, ols_slope x y],
                      resid = ols_residuals (ols_intercept x y) (ols_slope x y) x y\<rparr>))
      else Inl ValueError)"

text \<open>
  The dictionary that \<^verbatim>\<open>cointegration_test\<close> builds in lines 78 to 87 from the intercept,
  the slope, the residuals and the reply of the ADF test.
\<close>

definition coint_record :: "real \<Rightarrow> real \<Rightarrow> real list \<Rightarrow> adf_result \<Rightarrow> coint_result" where
  "coint_record a b residuals adf =
     \<lparr>cointegrated = adf_pvalue adf < 5 / 100,
      p_value = adf_pvalue adf,
      test_stat = adf_stat adf,
      alpha = a,
      beta = b,
      resid_std = nanstd (map Some residuals),
      resid_mean = fmean residuals,
      critical_values = adf_critical adf\<rparr>"

text \<open>The one property of the regression that the scan depends on.\<close>

definition raises_on_unaligned :: "(series \<Rightarrow> series \<Rightarrow> py_error + ols_results) \<Rightarrow> bool" where
  "raises_on_unaligned ols = (\<forall>pa pb. map fst pa \<noteq> map fst pb \<longrightarrow> (\<exists>e. ols pa pb = Inl e))"

text \<open>One of the two aligned series has fewer than \<open>min_periods\<close> points.\<close>

definition overlap_below :: "series \<Rightarrow> series \<Rightarrow> int \<Rightarrow> bool" where
  "overlap_below pa pb min_periods =
     (int (length (fst (align pa pb))) < min_periods \<or> int (length (snd (align pa pb))) < min_periods)"

text \<open>
  Two price series on the same three timestamps whose returns move against each other, and
  two series of four points that share three timestamps.
\<close>

definition against_a :: series where
  "against_a = [(1, 10), (2, 11), (3, 10)]"

definition against_b :: series where
  "against_b = [(1, 5), (2, 4), (3, 5)]"

definition shifted_a :: series where
  "shifted_a = [(1, 10), (2, 11), (3, 12), (4, 13)]"

definition shifted_b :: series where
  "shifted_b = [(2, 5), (3, 6), (4, 7), (5, 8)]"

text \<open>
  Twelve prices, with a series that is zero throughout, a series that is 5 throughout and a
  series that rises by one each step, all on the same timestamps.
\<close>

definition twelve_y :: series where
  "twelve_y = [(1, 10), (2, 11), (3, 10), (4, 12), (5, 11), (6, 13),
               (7, 12), (8, 14), (9, 13), (10, 15), (11, 14), (12, 16)]"

definition zero_x :: series where
  "zero_x = [(1, 0), (2, 0), (3, 0), (4, 0), (5, 0), (6, 0),
             (7, 0), (8, 0), (9, 0), (10, 0), (11, 0), (12, 0)]"

definition five_x :: series where
  "five_x = [(1, 5), (2, 5), (3, 5), (4, 5), (5, 5), (6, 5),
             (7, 5), (8, 5), (9, 5), (10, 5), (11, 5), (12, 5)]"

definition ramp_x :: series where
  "ramp_x = [(1, 1), (2, 2), (3, 3), (4, 4), (5, 5), (6, 6),
             (7, 7), (8, 8), (9, 9), (10, 10), (11, 11), (12, 12)]"


section \<open>Properties of signal generation\<close>

lemma signal_step_table:
  "signal_step entry exit stop (position_of st) z = position_of (table_next entry exit stop st z)"
  by (cases st) (simp_all add: signal_step_def)

lemma signal_loop_table:
  "signal_loop entry exit stop (position_of st) zs = map position_of (table_from entry exit stop st zs)"
  by (induction zs arbitrary: st) (simp_all add: Let_def signal_step_table)

text \<open>
  C1.  For every z-score column and every choice of thresholds, the signal column is the run
  of the specification's table machine: flat at \<open>t = 0\<close>, and at every later row the table's
  successor of the previous row's state under that row's z-score.
\<close>

theorem signal_column_follows_table:
  "signal_column entry exit stop z_col = map position_of (table_run entry exit stop z_col)"
proof (cases z_col)
  case Nil
  then show ?thesis by (simp add: signal_column_def table_run_def)
next
  case (Cons z0 zs)
  have "signal_loop entry exit stop (position_of Flat) zs
          = map position_of (table_from entry exit stop Flat zs)"
    by (rule signal_loop_table)
  with Cons show ?thesis by (simp add: signal_column_def table_run_def)
qed

lemma signal_step_range: "p \<in> {- 1, 0, 1} \<Longrightarrow> signal_step e x s p z \<in> {- 1, 0, 1}"
  by (auto simp: signal_step_def)

lemma signal_step_change: "p \<in> {- 1, 0, 1} \<Longrightarrow> \<bar>signal_step e x s p z - p\<bar> \<le> 1"
  by (auto simp: signal_step_def)

lemma signal_loop_change:
  "p \<in> {- 1, 0, 1} \<Longrightarrow> Suc t < length (p # signal_loop e x s p zs) \<Longrightarrow>
     \<bar>(p # signal_loop e x s p zs) ! Suc t - (p # signal_loop e x s p zs) ! t\<bar> \<le> 1"
proof (induction zs arbitrary: p t)
  case Nil
  then show ?case by simp
next
  case (Cons z zs)
  let ?p' = "signal_step e x s p z"
  have p': "?p' \<in> {- 1, 0, 1}" using Cons.prems(1) by (rule signal_step_range)
  show ?case
  proof (cases t)
    case 0
    then show ?thesis using signal_step_change [OF Cons.prems(1), of e x s z] by (simp add: Let_def)
  next
    case (Suc k)
    with Cons.prems(2) have "Suc k < length (?p' # signal_loop e x s ?p' zs)" by (simp add: Let_def)
    from Cons.IH [OF p' this] Suc show ?thesis by (simp add: Let_def)
  qed
qed

lemma length_signal_loop [simp]: "length (signal_loop e x s p zs) = length zs"
  by (induction zs arbitrary: p) (simp_all add: Let_def)

lemma length_signal_column [simp]: "length (signal_column e x s zs) = length zs"
  by (cases zs) (simp_all add: signal_column_def)

lemma signal_column_scenario3:
  "signal_column scenario3_entry scenario3_exit scenario3_stop scenario3_z = [0, 0, - 1, - 1, 0]"
  by (simp add: signal_column_def scenario3_z_def scenario3_entry_def scenario3_exit_def
      scenario3_stop_def signal_step_def fgt_def flt_def fneg_def Let_def)

text \<open>
  C2, as stated: on scenario 3 the signal column would be \<open>[0, 0, -1, -1, -1]\<close>.  It is
  not.  At row 4 the position is short and \<open>z = -0.5\<close> is below
  \<open>-exit_threshold = 0.8\<close>, so the loop sets the position back to 0.
\<close>

theorem signal_scenario3_counterexample:
  "signal_column scenario3_entry scenario3_exit scenario3_stop scenario3_z \<noteq> [0, 0, - 1, - 1, - 1]"
  by (simp add: signal_column_scenario3)

text \<open>
  C2, amended.  On scenario 3 the signal column is \<open>[0, 0, -1, -1, 0]\<close>: short from row 2,
  still short at row 3 (\<open>0.9\<close> is not below \<open>0.8\<close>), flat again at row 4.
\<close>

theorem signal_scenario3_positions:
  "scenario3_entry = Some (12 / 10) \<and> scenario3_exit = Some (- (8 / 10)) \<and> scenario3_stop = Some 3
   \<and> scenario3_z = [Some 0, Some (5 / 10), Some (13 / 10), Some (9 / 10), Some (- (5 / 10))]
   \<and> signal_column scenario3_entry scenario3_exit scenario3_stop scenario3_z = [0, 0, - 1, - 1, 0]"
  using signal_column_scenario3
  by (simp add: scenario3_entry_def scenario3_exit_def scenario3_stop_def scenario3_z_def)

text \<open>
  C10.  Between two consecutive rows the signal changes by at most one unit, for every
  z-score column and all thresholds: the position never flips between long and short without
  a flat row in between.
\<close>

theorem signal_changes_by_at_most_one:
  assumes "0 < t" and "t < length z_col"
  shows "\<bar>signal_column entry exit stop z_col ! t - signal_column entry exit stop z_col ! (t - 1)\<bar> \<le> 1"
proof -
  from assms obtain k where t: "t = Suc k" by (cases t) auto
  from assms obtain z0 zs where z: "z_col = z0 # zs" by (cases z_col) auto
  have "Suc k < length (0 # signal_loop entry exit stop 0 zs)" using assms(2) t z by simp
  with signal_loop_change [of 0 k entry exit stop zs]
  show ?thesis by (simp add: t z signal_column_def)
qed

text \<open>
  The step from row 1 to row 2 of scenario 3 is such a change, from flat to short.
\<close>

theorem signal_changes_witness:
  "\<bar>signal_column scenario3_entry scenario3_exit scenario3_stop scenario3_z ! 2
     - signal_column scenario3_entry scenario3_exit scenario3_stop scenario3_z ! 1\<bar> \<le> 1
   \<and> signal_column scenario3_entry scenario3_exit scenario3_stop scenario3_z ! 2 = - 1
   \<and> signal_column scenario3_entry scenario3_exit scenario3_stop scenario3_z ! 1 = 0"
proof -
  have h1: "0 < (2::nat)" by simp
  have h2: "2 < length scenario3_z" by (simp add: scenario3_z_def)
  from signal_changes_by_at_most_one [OF h1 h2, of scenario3_entry scenario3_exit scenario3_stop]
  show ?thesis by (simp add: signal_column_scenario3)
qed



section \<open>Properties of the backtest\<close>

subsection \<open>The column operations\<close>

lemma length_pct_change [simp]: "length (pct_change xs) = length xs"
  by (cases xs) (simp_all add: pct_change_def)

lemma length_shift1 [simp]: "length (shift1 xs) = length xs"
  by (cases xs) (simp_all add: shift1_def)

lemma length_diff [simp]: "length (diff xs) = length xs"
  by (cases xs) (simp_all add: diff_def)

lemma length_fillna [simp]: "length (fillna v xs) = length xs"
  by (simp add: fillna_def)

lemma length_cumprod_from [simp]: "length (cumprod_from acc xs) = length xs"
  by (induction acc xs rule: cumprod_from.induct) simp_all

lemma length_position_changes_col [simp]: "length (position_changes_col signals) = length signals"
  by (simp add: position_changes_col_def)

lemma length_net_returns_col [simp]: "length (net_returns_col signals tc) = length signals"
  by (simp add: net_returns_col_def)

lemma pct_change_Suc:
  "Suc t < length xs \<Longrightarrow>
     pct_change xs ! Suc t = fsub (fdiv (Some (xs ! Suc t)) (Some (xs ! t))) (Some 1)"
  by (cases xs) (simp_all add: pct_change_def)

lemma shift1_Suc:
  assumes "Suc t < length xs"
  shows "shift1 xs ! Suc t = Some (xs ! t)"
proof -
  from assms obtain x rest where xs: "xs = x # rest" by (cases xs) auto
  from assms have "t < length (butlast xs)" by simp
  then have "map Some (butlast xs) ! t = Some (xs ! t)" by (simp add: nth_butlast)
  then show ?thesis unfolding xs by (simp add: shift1_def)
qed

lemma diff_Suc: "Suc t < length xs \<Longrightarrow> diff xs ! Suc t = Some (xs ! Suc t - xs ! t)"
  by (cases xs) (simp_all add: diff_def)

lemma iloc_last_nonempty: "xs \<noteq> [] \<Longrightarrow> iloc_last xs = Inr (last xs)"
  by (cases xs) (simp_all add: iloc_last_def)

lemma dropna_map_Some: "dropna (map (\<lambda>z. Some (f z)) zs) = map f zs"
  by (induction zs) simp_all

text \<open>
  The sum of the \<^verbatim>\<open>position_changes\<close> column: row 0 is NaN and is skipped, every later row
  contributes the absolute change from the row before.
\<close>

lemma nansum_position_changes:
  "nansum (map fabs (diff xs)) = (\<Sum>t = 1..<length xs. \<bar>xs ! t - xs ! (t - 1)\<bar>)"
proof (cases xs)
  case Nil
  then show ?thesis by (simp add: nansum_def diff_def)
next
  case (Cons x rest)
  have "map fabs (diff xs) = None # map (\<lambda>z. Some \<bar>snd z - fst z\<bar>) (zip xs rest)"
    using Cons by (simp add: diff_def fabs_def case_prod_beta)
  then have "nansum (map fabs (diff xs)) = sum_list (map (\<lambda>z. \<bar>snd z - fst z\<bar>) (zip xs rest))"
    by (simp add: nansum_def dropna_map_Some)
  also have "\<dots> = (\<Sum>i = 0..<length rest. \<bar>rest ! i - xs ! i\<bar>)"
    using Cons by (simp add: sum_list_sum_nth)
  also have "\<dots> = (\<Sum>i = 0..<length rest. \<bar>xs ! Suc i - xs ! (Suc i - 1)\<bar>)"
    using Cons by simp
  also have "\<dots> = (\<Sum>t = Suc 0..<Suc (length rest). \<bar>xs ! t - xs ! (t - 1)\<bar>)"
    by (rule sum.shift_bounds_Suc_ivl [symmetric])
  finally show ?thesis using Cons by simp
qed

subsection \<open>The result of the backtest\<close>

lemma backtest_empty: "backtest_pairs_strategy [] tc = Inl IndexError"
  by (simp add: backtest_pairs_strategy_def pct_change_def shift1_def diff_def fillna_def
      cumprod_def iloc_last_def)

text \<open>
  On a frame with at least one row the backtest returns its dictionary; these are the
  entries that the properties below describe.
\<close>

lemma backtest_nonempty:
  assumes "signals \<noteq> []"
  shows "\<exists>r. backtest_pairs_strategy signals tc = Inr r
     \<and> net_returns r = net_returns_col signals tc
     \<and> volatility r = fmul (nanstd (net_returns_col signals tc)) (Some (sqrt 252))
     \<and> sharpe_ratio r = (if fgt (volatility r) (Some 0) then fdiv (annual_return r) (volatility r) else Some 0)
     \<and> num_trades r = fdiv (Some (nansum (position_changes_col signals))) (Some 2)"
proof -
  let ?cum = "map (\<lambda>c. fsub c (Some 1)) (cumprod (map (fadd (Some 1)) (net_returns_col signals tc)))"
  have "length ?cum = length signals" by (simp add: cumprod_def)
  with assms have "?cum \<noteq> []" by (metis length_0_conv)
  then have "iloc_last ?cum = Inr (last ?cum)" by (rule iloc_last_nonempty)
  then show ?thesis
    by (simp add: backtest_pairs_strategy_def Let_def net_returns_col_def position_changes_col_def)
qed

text \<open>
  A row after the first of the \<^verbatim>\<open>net_returns\<close> column, when the previous prices are not
  zero.
\<close>

lemma net_returns_col_Suc:
  assumes "Suc t < length signals"
      and "price_a (signals ! t) \<noteq> 0" and "price_b (signals ! t) \<noteq> 0"
  shows "net_returns_col signals tc ! Suc t =
           Some (real_of_int (signal (signals ! t))
                   * ((price_a (signals ! Suc t) / price_a (signals ! t) - 1)
                      - (price_b (signals ! Suc t) / price_b (signals ! t) - 1))
                 - \<bar>real_of_int (signal (signals ! Suc t)) - real_of_int (signal (signals ! t))\<bar> * tc)"
proof -
  let ?sig = "map (\<lambda>r. real_of_int (signal r)) signals"
  from assms(1) have t: "t < length signals" by simp
  have pos: "fillna 0 (shift1 ?sig) ! Suc t = Some (real_of_int (signal (signals ! t)))"
    using assms(1) t by (simp add: fillna_def shift1_Suc)
  have ra: "pct_change (map price_a signals) ! Suc t
              = Some (price_a (signals ! Suc t) / price_a (signals ! t) - 1)"
    using assms(1,2) t by (simp add: pct_change_Suc fsub_def fdiv_def)
  have rb: "pct_change (map price_b signals) ! Suc t
              = Some (price_b (signals ! Suc t) / price_b (signals ! t) - 1)"
    using assms(1,3) t by (simp add: pct_change_Suc fsub_def fdiv_def)
  have ch: "position_changes_col signals ! Suc t
              = Some \<bar>real_of_int (signal (signals ! Suc t)) - real_of_int (signal (signals ! t))\<bar>"
    using assms(1) t by (simp add: position_changes_col_def diff_Suc fabs_def)
  show ?thesis
    using assms(1) pos ra rb ch
    by (simp add: net_returns_col_def fsub_def fmul_def)
qed

lemma net_returns_col_scenario4:
  "net_returns_col scenario4 (1 / 1000)
     = [None, Some 0, Some (- (1 / 1000)), Some (- (2 / 100)), Some (- (1 / 1000))]"
  by (simp add: net_returns_col_def position_changes_col_def scenario4_def pct_change_def
      shift1_def fillna_def diff_def fsub_def fmul_def fdiv_def fabs_def)

lemma nanstd_scenario4:
  "nanstd (net_returns_col scenario4 (1 / 1000)) = Some (sqrt (281 / 3000000))"
  by (simp add: net_returns_col_scenario4 nanstd_def Let_def power2_eq_square)

lemma net_returns_col_flat_frame:
  "net_returns_col flat_frame (1 / 1000) = [None, Some 0, Some 0]"
  by (simp add: net_returns_col_def position_changes_col_def flat_frame_def pct_change_def
      shift1_def fillna_def diff_def fsub_def fmul_def fdiv_def fabs_def)

lemma nanstd_flat_frame: "nanstd (net_returns_col flat_frame (1 / 1000)) = Some 0"
  by (simp add: net_returns_col_flat_frame nanstd_def Let_def)

text \<open>
  C3, as stated: on scenario 4 the net return at row 2 would be \<open>0.009\<close>.  It is
  \<open>-0.001\<close>: the position that earns the return of row 2 is the signal of row 1, which
  is 0, and the entry at row 2 costs \<open>0.001\<close>.
\<close>

theorem backtest_scenario4_counterexample:
  "\<not> isl (backtest_pairs_strategy scenario4 (1 / 1000))
   \<and> net_returns (projr (backtest_pairs_strategy scenario4 (1 / 1000))) ! 2 = Some (- (1 / 1000))
   \<and> net_returns (projr (backtest_pairs_strategy scenario4 (1 / 1000))) ! 2 \<noteq> Some (9 / 1000)"
proof -
  have "scenario4 \<noteq> []" by (simp add: scenario4_def)
  from backtest_nonempty [OF this, of "1 / 1000"] obtain r where
    r: "backtest_pairs_strategy scenario4 (1 / 1000) = Inr r"
    and n: "net_returns r = net_returns_col scenario4 (1 / 1000)" by blast
  show ?thesis by (simp add: r n net_returns_col_scenario4)
qed

text \<open>
  C3, amended.  At every row \<open>t > 0\<close> whose previous prices are not zero, the net return is
  the signal of row \<open>t - 1\<close> times the difference of the two simple returns of row \<open>t\<close>,
  less the absolute signal change from row \<open>t - 1\<close> to row \<open>t\<close> times the cost rate.  On
  scenario 4 with cost rate \<open>0.001\<close> the net return is \<open>-0.001\<close> at row 2 and \<open>-0.001\<close> at
  row 4.
\<close>

theorem backtest_net_return_lagged:
  "(\<forall>signals tc r t.
      backtest_pairs_strategy signals tc = Inr r \<and> 0 < t \<and> t < length signals
        \<and> price_a (signals ! (t - 1)) \<noteq> 0 \<and> price_b (signals ! (t - 1)) \<noteq> 0 \<longrightarrow>
      net_returns r ! t =
        Some (real_of_int (signal (signals ! (t - 1)))
                * ((price_a (signals ! t) / price_a (signals ! (t - 1)) - 1)
                   - (price_b (signals ! t) / price_b (signals ! (t - 1)) - 1))
              - \<bar>real_of_int (signal (signals ! t)) - real_of_int (signal (signals ! (t - 1)))\<bar> * tc))
   \<and> (\<exists>r. backtest_pairs_strategy scenario4 (1 / 1000) = Inr r
          \<and> net_returns r ! 2 = Some (- (1 / 1000)) \<and> net_returns r ! 4 = Some (- (1 / 1000)))"
proof (intro conjI allI impI)
  fix signals tc r t
  assume a: "backtest_pairs_strategy signals tc = Inr r \<and> 0 < t \<and> t < length signals
        \<and> price_a (signals ! (t - 1)) \<noteq> 0 \<and> price_b (signals ! (t - 1)) \<noteq> 0"
  then obtain k where t: "t = Suc k" by (cases t) auto
  from a have ne: "signals \<noteq> []" by auto
  from backtest_nonempty [OF ne, of tc] a have n: "net_returns r = net_returns_col signals tc"
    by auto
  from a t have "Suc k < length signals" "price_a (signals ! k) \<noteq> 0" "price_b (signals ! k) \<noteq> 0"
    by simp_all
  from net_returns_col_Suc [OF this, of tc] show "net_returns r ! t =
        Some (real_of_int (signal (signals ! (t - 1)))
                * ((price_a (signals ! t) / price_a (signals ! (t - 1)) - 1)
                   - (price_b (signals ! t) / price_b (signals ! (t - 1)) - 1))
              - \<bar>real_of_int (signal (signals ! t)) - real_of_int (signal (signals ! (t - 1)))\<bar> * tc)"
    by (simp add: n t)
next
  have ne: "scenario4 \<noteq> []" by (simp add: scenario4_def)
  from backtest_nonempty [OF ne, of "1 / 1000"] obtain r where
    r: "backtest_pairs_strategy scenario4 (1 / 1000) = Inr r"
    and n: "net_returns r = net_returns_col scenario4 (1 / 1000)" by blast
  then show "\<exists>r. backtest_pairs_strategy scenario4 (1 / 1000) = Inr r
          \<and> net_returns r ! 2 = Some (- (1 / 1000)) \<and> net_returns r ! 4 = Some (- (1 / 1000))"
    by (simp add: net_returns_col_scenario4)
qed

text \<open>
  Row 3 of scenario 4: the position held since row 2 earns the return \<open>-0.02\<close> and nothing
  is traded.
\<close>

theorem backtest_net_return_witness:
  "\<exists>r. backtest_pairs_strategy scenario4 (1 / 1000) = Inr r
      \<and> price_a (scenario4 ! 2) \<noteq> 0 \<and> price_b (scenario4 ! 2) \<noteq> 0
      \<and> signal (scenario4 ! 2) = 1
      \<and> net_returns r ! 3 = Some (- (2 / 100))"
proof -
  have ne: "scenario4 \<noteq> []" by (simp add: scenario4_def)
  from backtest_nonempty [OF ne, of "1 / 1000"] obtain r where
    r: "backtest_pairs_strategy scenario4 (1 / 1000) = Inr r" by blast
  have h: "backtest_pairs_strategy scenario4 (1 / 1000) = Inr r \<and> 0 < (3::nat) \<and> 3 < length scenario4
        \<and> price_a (scenario4 ! (3 - 1)) \<noteq> 0 \<and> price_b (scenario4 ! (3 - 1)) \<noteq> 0"
    using r by (simp add: scenario4_def)
  from backtest_net_return_lagged have "net_returns r ! 3 =
        Some (real_of_int (signal (scenario4 ! (3 - 1)))
                * ((price_a (scenario4 ! 3) / price_a (scenario4 ! (3 - 1)) - 1)
                   - (price_b (scenario4 ! 3) / price_b (scenario4 ! (3 - 1)) - 1))
              - \<bar>real_of_int (signal (scenario4 ! 3)) - real_of_int (signal (scenario4 ! (3 - 1)))\<bar> * (1 / 1000))"
    using h by blast
  then have "net_returns r ! 3 = Some (- (2 / 100))"
    by (simp add: scenario4_def)
  with r show ?thesis by (simp add: scenario4_def)
qed

text \<open>
  C5.  The backtest fails exactly on the frame without rows, where \<^verbatim>\<open>.iloc[-1]\<close> raises
  (the error the design document calls EmptySeriesError is Python's \<^verbatim>\<open>IndexError\<close>); on
  every other frame it returns a result.
\<close>

theorem backtest_fails_iff_empty:
  "(backtest_pairs_strategy signals tc = Inl IndexError \<longleftrightarrow> signals = [])
   \<and> (signals \<noteq> [] \<longrightarrow> (\<exists>r. backtest_pairs_strategy signals tc = Inr r))"
proof (cases "signals = []")
  case True
  then show ?thesis by (simp add: backtest_empty)
next
  case False
  from backtest_nonempty [OF this, of tc] obtain r where "backtest_pairs_strategy signals tc = Inr r"
    by blast
  with False show ?thesis by simp
qed

theorem backtest_fails_witness:
  "backtest_pairs_strategy [] (1 / 1000) = Inl IndexError
   \<and> flat_frame \<noteq> [] \<and> (\<exists>r. backtest_pairs_strategy flat_frame (1 / 1000) = Inr r)"
  using backtest_fails_iff_empty [of "[]" "1 / 1000"]
    backtest_fails_iff_empty [of flat_frame "1 / 1000"]
  by (simp add: flat_frame_def)

text \<open>
  C7.  The Sharpe ratio is the annual return divided by the volatility when the volatility
  is a positive number, and exactly 0 when the volatility is 0: the division is only reached
  behind the guard.
\<close>

theorem sharpe_ratio_guarded:
  assumes "signals \<noteq> []"
  shows "\<exists>r. backtest_pairs_strategy signals tc = Inr r
     \<and> (\<forall>v. volatility r = Some v \<and> 0 < v \<longrightarrow>
            sharpe_ratio r = map_option (\<lambda>a. a / v) (annual_return r))
     \<and> (volatility r = Some 0 \<longrightarrow> sharpe_ratio r = Some 0)"
proof -
  from backtest_nonempty [OF assms, of tc] obtain r where
    r: "backtest_pairs_strategy signals tc = Inr r"
    and s: "sharpe_ratio r = (if fgt (volatility r) (Some 0)
                              then fdiv (annual_return r) (volatility r) else Some 0)"
    by blast
  have "sharpe_ratio r = map_option (\<lambda>a. a / v) (annual_return r)"
    if "volatility r = Some v \<and> 0 < v" for v
    using s that by (cases "annual_return r") (simp_all add: fgt_def fdiv_def)
  moreover have "sharpe_ratio r = Some 0" if "volatility r = Some 0"
    using s that by (simp add: fgt_def)
  ultimately show ?thesis using r by blast
qed

text \<open>
  Scenario 4 has a positive volatility, the frame with constant prices has volatility 0.
\<close>

theorem sharpe_ratio_witness:
  "(\<exists>r v. backtest_pairs_strategy scenario4 (1 / 1000) = Inr r \<and> volatility r = Some v \<and> 0 < v
      \<and> sharpe_ratio r = map_option (\<lambda>a. a / v) (annual_return r))
   \<and> (\<exists>r. backtest_pairs_strategy flat_frame (1 / 1000) = Inr r \<and> volatility r = Some 0
      \<and> sharpe_ratio r = Some 0)"
proof
  have ne: "scenario4 \<noteq> []" by (simp add: scenario4_def)
  from sharpe_ratio_guarded [OF ne, of "1 / 1000"] obtain r where
    r: "backtest_pairs_strategy scenario4 (1 / 1000) = Inr r"
    and g: "\<forall>v. volatility r = Some v \<and> 0 < v \<longrightarrow>
              sharpe_ratio r = map_option (\<lambda>a. a / v) (annual_return r)"
    by blast
  from backtest_nonempty [OF ne, of "1 / 1000"] r
  have "volatility r = fmul (nanstd (net_returns_col scenario4 (1 / 1000))) (Some (sqrt 252))"
    by auto
  then have v: "volatility r = Some (sqrt (281 / 3000000) * sqrt 252)"
    by (simp add: nanstd_scenario4 fmul_def)
  have "0 < sqrt (281 / 3000000) * sqrt 252" by simp
  with v g r show "\<exists>r v. backtest_pairs_strategy scenario4 (1 / 1000) = Inr r \<and> volatility r = Some v
      \<and> 0 < v \<and> sharpe_ratio r = map_option (\<lambda>a. a / v) (annual_return r)"
    by blast
next
  have ne: "flat_frame \<noteq> []" by (simp add: flat_frame_def)
  from sharpe_ratio_guarded [OF ne, of "1 / 1000"] obtain r where
    r: "backtest_pairs_strategy flat_frame (1 / 1000) = Inr r"
    and g: "volatility r = Some 0 \<longrightarrow> sharpe_ratio r = Some 0"
    by blast
  from backtest_nonempty [OF ne, of "1 / 1000"] r
  have "volatility r = fmul (nanstd (net_returns_col flat_frame (1 / 1000))) (Some (sqrt 252))"
    by auto
  then have "volatility r = Some 0" by (simp add: nanstd_flat_frame fmul_def)
  with g r show "\<exists>r. backtest_pairs_strategy flat_frame (1 / 1000) = Inr r \<and> volatility r = Some 0
      \<and> sharpe_ratio r = Some 0"
    by blast
qed

text \<open>
  C9.  On every frame with at least one row, the trade count is a number \<open>n \<ge> 0\<close> with
  \<open>2 * n\<close> equal to the sum over the rows \<open>t > 0\<close> of the absolute signal change from row
  \<open>t - 1\<close> to row \<open>t\<close>.
\<close>

theorem trade_count_half_changes:
  assumes "signals \<noteq> []"
  shows "\<exists>r n. backtest_pairs_strategy signals tc = Inr r \<and> num_trades r = Some n \<and> 0 \<le> n
     \<and> 2 * n = (\<Sum>t = 1..<length signals.
                  \<bar>real_of_int (signal (signals ! t)) - real_of_int (signal (signals ! (t - 1)))\<bar>)"
proof -
  let ?sig = "map (\<lambda>r. real_of_int (signal r)) signals"
  let ?total = "\<Sum>t = 1..<length signals.
                  \<bar>real_of_int (signal (signals ! t)) - real_of_int (signal (signals ! (t - 1)))\<bar>"
  from backtest_nonempty [OF assms, of tc] obtain r where
    r: "backtest_pairs_strategy signals tc = Inr r"
    and n: "num_trades r = fdiv (Some (nansum (position_changes_col signals))) (Some 2)"
    by blast
  have "nansum (position_changes_col signals) = (\<Sum>t = 1..<length ?sig. \<bar>?sig ! t - ?sig ! (t - 1)\<bar>)"
    unfolding position_changes_col_def by (rule nansum_position_changes)
  also have "\<dots> = ?total"
    by (rule sum.cong) (auto simp: less_imp_diff_less)
  finally have total: "nansum (position_changes_col signals) = ?total" .
  have "0 \<le> ?total" by (rule sum_nonneg) simp
  with n total have "num_trades r = Some (?total / 2) \<and> 0 \<le> ?total / 2 \<and> 2 * (?total / 2) = ?total"
    by (simp add: fdiv_def)
  with r show ?thesis by blast
qed

text \<open>
  Scenario 4 has one entry and one exit: one trade.
\<close>

theorem trade_count_witness:
  "scenario4 \<noteq> [] \<and> (\<exists>r. backtest_pairs_strategy scenario4 (1 / 1000) = Inr r \<and> num_trades r = Some 1)"
proof -
  have ne: "scenario4 \<noteq> []" by (simp add: scenario4_def)
  from trade_count_half_changes [OF ne, of "1 / 1000"] obtain r n where
    r: "backtest_pairs_strategy scenario4 (1 / 1000) = Inr r" and n: "num_trades r = Some n"
    and s: "2 * n = (\<Sum>t = 1..<length scenario4.
                  \<bar>real_of_int (signal (scenario4 ! t)) - real_of_int (signal (scenario4 ! (t - 1)))\<bar>)"
    by blast
  have "(\<Sum>t = 1..<length scenario4.
            \<bar>real_of_int (signal (scenario4 ! t)) - real_of_int (signal (scenario4 ! (t - 1)))\<bar>) = 2"
    by (simp add: scenario4_def sum.atLeast_Suc_lessThan numeral_eq_Suc)
  with s have "n = 1" by simp
  with ne r n show ?thesis by blast
qed


section \<open>Properties of the cointegration test\<close>

text \<open>
  The function itself checks nothing: it passes on the first error of the library, fails on
  a fit with fewer than two parameters at \<^verbatim>\<open>params.iloc[0]\<close> or \<^verbatim>\<open>params.iloc[1]\<close>, and
  otherwise builds its dictionary from the fit and the reply of the ADF test.
\<close>

lemma cointegration_test_cases:
  "cointegration_test ols adfuller pa pb =
     (case ols pa pb of
        Inl e \<Rightarrow> Inl e
      | Inr m \<Rightarrow>
          if length (params m) < 2 then Inl IndexError
          else map_sum id (coint_record (params m ! 0) (params m ! 1) (resid m)) (adfuller (resid m)))"
  by (simp add: cointegration_test_def iloc_def coint_record_def Let_def split: sum.splits)

text \<open>
  A list has no variance exactly when all its values are equal.
\<close>

lemma sum_list_all_equal:
  "list_all (\<lambda>x. x = c) xs \<Longrightarrow> sum_list xs = real (length xs) * (c::real)"
  by (induction xs) (simp_all add: algebra_simps)

lemma mean_all_equal:
  assumes "xs \<noteq> []" and "list_all (\<lambda>x. x = c) xs"
  shows "mean xs = c"
  using assms sum_list_all_equal [OF assms(2)] by (simp add: mean_def)

lemma sum_sq_dev_zero_iff:
  assumes "xs \<noteq> []"
  shows "sum_sq_dev xs = 0 \<longleftrightarrow> list_all (\<lambda>x. x = hd xs) xs"
proof
  assume z: "sum_sq_dev xs = 0"
  have "\<forall>v\<in>set (map (\<lambda>x. (x - mean xs)\<^sup>2) xs). v = 0"
    using z unfolding sum_sq_dev_def
    by (subst (asm) sum_list_nonneg_eq_0_iff) auto
  then have all: "\<forall>x\<in>set xs. x = mean xs" by auto
  with assms have "hd xs = mean xs" by (cases xs) auto
  with all show "list_all (\<lambda>x. x = hd xs) xs" by (simp add: list_all_iff)
next
  assume c: "list_all (\<lambda>x. x = hd xs) xs"
  with assms have "mean xs = hd xs" by (rule mean_all_equal)
  with c have "\<forall>x\<in>set xs. (x - mean xs)\<^sup>2 = 0" by (simp add: list_all_iff)
  then have "sum_list (map (\<lambda>x. (x - mean xs)\<^sup>2) xs) = sum_list (map (\<lambda>x. 0) xs)"
    by (intro arg_cong [where f = sum_list] map_cong) auto
  also have "\<dots> = 0" by simp
  finally show "sum_sq_dev xs = 0" unfolding sum_sq_dev_def .
qed

lemma map2_first_only: "length xs = length ys \<Longrightarrow> map2 (\<lambda>x y. f x) xs ys = map f xs"
  by (induction xs ys rule: list_induct2) simp_all

lemma aligned_lengths: "map fst pa = map fst pb \<Longrightarrow> length (map snd pa) = length (map snd pb)"
  by (metis length_map)

text \<open>
  The test on the regression of the library, for the three kinds of \<open>X\<close>: a constant other
  than zero, zero throughout, and some variance.
\<close>

lemma cointegration_constant_x:
  assumes "map fst pa = map fst pb" and "pa \<noteq> []"
      and "sum_sq_dev (map snd pb) = 0" and "hd (map snd pb) \<noteq> 0"
  shows "cointegration_test sm_ols adfuller pa pb = Inl IndexError"
proof -
  from assms(1,2) have ne: "map snd pb \<noteq> []" by (metis map_is_Nil_conv)
  with assms(3,4) have "nonzero_constant (map snd pb)"
    by (simp add: nonzero_constant_def sum_sq_dev_zero_iff)
  with assms(1,2) show ?thesis
    by (simp add: cointegration_test_cases sm_ols_def Let_def)
qed

lemma cointegration_zero_x:
  assumes "map fst pa = map fst pb" and "pa \<noteq> []"
      and "sum_sq_dev (map snd pb) = 0" and "hd (map snd pb) = 0"
  shows "cointegration_test sm_ols adfuller pa pb =
           map_sum id
             (coint_record (mean (map snd pa)) 0 (map (\<lambda>v. v - mean (map snd pa)) (map snd pa)))
             (adfuller (map (\<lambda>v. v - mean (map snd pa)) (map snd pa)))"
proof -
  from assms(4) have nc: "\<not> nonzero_constant (map snd pb)" by (simp add: nonzero_constant_def)
  have "ols_residuals (mean (map snd pa)) 0 (map snd pb) (map snd pa)
          = map (\<lambda>v. v - mean (map snd pa)) (map snd pa)"
    unfolding ols_residuals_def using aligned_lengths [OF assms(1)]
    by (simp add: map2_first_only)
  with assms(1,2,3) nc show ?thesis
    by (simp add: cointegration_test_cases sm_ols_def Let_def)
qed

lemma cointegration_regular_x:
  assumes "map fst pa = map fst pb" and "pa \<noteq> []" and "sum_sq_dev (map snd pb) \<noteq> 0"
  shows "cointegration_test sm_ols adfuller pa pb =
           map_sum id
             (coint_record (ols_intercept (map snd pb) (map snd pa)) (ols_slope (map snd pb) (map snd pa))
                (ols_residuals (ols_intercept (map snd pb) (map snd pa))
                   (ols_slope (map snd pb) (map snd pa)) (map snd pb) (map snd pa)))
             (adfuller
                (ols_residuals (ols_intercept (map snd pb) (map snd pa))
                   (ols_slope (map snd pb) (map snd pa)) (map snd pb) (map snd pa)))"
proof -
  from assms(1,2) have ne: "map snd pb \<noteq> []" by (metis map_is_Nil_conv)
  with assms(3) have nc: "\<not> nonzero_constant (map snd pb)"
    by (simp add: nonzero_constant_def sum_sq_dev_zero_iff)
  with assms show ?thesis
    by (simp add: cointegration_test_cases sm_ols_def Let_def)
qed

lemma mean_twelve_y: "mean (map snd twelve_y) = 151 / 12"
  by (simp add: mean_def twelve_y_def)

lemma zero_x_facts:
  "map fst twelve_y = map fst zero_x" "twelve_y \<noteq> []"
  "sum_sq_dev (map snd zero_x) = 0" "hd (map snd zero_x) = 0"
  by (simp_all add: twelve_y_def zero_x_def sum_sq_dev_def mean_def)

lemma five_x_facts:
  "map fst twelve_y = map fst five_x"
  "sum_sq_dev (map snd five_x) = 0" "hd (map snd five_x) \<noteq> 0"
  by (simp_all add: twelve_y_def five_x_def sum_sq_dev_def mean_def)

lemma ramp_x_facts:
  "map fst twelve_y = map fst ramp_x"
  "sum_sq_dev (map snd ramp_x) = 143"
  "ols_slope (map snd ramp_x) (map snd twelve_y) = 141 / 286"
  "ols_intercept (map snd ramp_x) (map snd twelve_y) = 619 / 66"
  by (simp_all add: twelve_y_def ramp_x_def sum_sq_dev_def sum_cross_dev_def mean_def
      ols_slope_def ols_intercept_def power2_eq_square)

lemma sm_ols_ramp:
  "sm_ols twelve_y ramp_x
     = Inr \<lparr>params = [619 / 66, 141 / 286],
            resid = ols_residuals (619 / 66) (141 / 286) (map snd ramp_x) (map snd twelve_y)\<rparr>"
proof -
  have "\<not> nonzero_constant (map snd ramp_x)"
    by (simp add: nonzero_constant_def ramp_x_def)
  moreover have "twelve_y \<noteq> []" by (simp add: twelve_y_def)
  ultimately show ?thesis
    by (simp add: sm_ols_def Let_def ramp_x_facts)
qed

text \<open>
  C6, as stated: the test would fail whenever \<open>X\<close> has zero variance.  For \<open>X\<close> zero
  throughout, on the same twelve timestamps as \<open>Y\<close>, the regression does not fail: a column
  of ones is added, the fit is intercept \<open>mean Y = 151/12\<close> and slope 0, and the test returns
  a result with whatever statistic the ADF test gives for the residuals \<open>Y - mean Y\<close>.
\<close>

theorem cointegration_zero_variance_counterexample:
  "map fst twelve_y = map fst zero_x \<and> sum_sq_dev (map snd zero_x) = 0
   \<and> (\<forall>adf. cointegration_test sm_ols (\<lambda>residuals. Inr adf) twelve_y zero_x
         = Inr (coint_record (151 / 12) 0 (map (\<lambda>v. v - 151 / 12) (map snd twelve_y)) adf))"
  using cointegration_zero_x [OF zero_x_facts, of "\<lambda>residuals. Inr adf" for adf]
  by (simp add: zero_x_facts mean_twelve_y)

text \<open>
  C6, amended.  The cointegration test makes no variance check.  It fails exactly when the
  regression or the ADF test raises or the fit has fewer than two parameters, and whenever it
  returns, its result holds the first two parameters of the fit as intercept and slope, the
  statistic, p-value and critical values of the ADF test on the residuals, and the residuals'
  standard deviation and mean.  On aligned, non-empty \<open>(Y, X)\<close> and the regression of the
  library: for \<open>X\<close> a constant other than zero it fails, with \<^verbatim>\<open>IndexError\<close> on the missing
  slope; for \<open>X\<close> zero throughout it returns intercept \<open>mean Y\<close> and slope 0 whenever the ADF
  test returns; for \<open>X\<close> with some variance it returns the least-squares intercept and slope
  whenever the ADF test returns.
\<close>

theorem cointegration_test_no_variance_check:
  "((\<exists>e. cointegration_test ols adfuller pa pb = Inl e) \<longleftrightarrow>
      (\<exists>e. ols pa pb = Inl e)
      \<or> (\<exists>m. ols pa pb = Inr m \<and> (length (params m) < 2 \<or> (\<exists>e. adfuller (resid m) = Inl e))))
   \<and> (\<forall>m adf. ols pa pb = Inr m \<and> 2 \<le> length (params m) \<and> adfuller (resid m) = Inr adf \<longrightarrow>
         cointegration_test ols adfuller pa pb
           = Inr (coint_record (params m ! 0) (params m ! 1) (resid m) adf))
   \<and> (map fst pa = map fst pb \<and> pa \<noteq> [] \<and> sum_sq_dev (map snd pb) = 0 \<and> hd (map snd pb) \<noteq> 0 \<longrightarrow>
         cointegration_test sm_ols adfuller pa pb = Inl IndexError)
   \<and> (map fst pa = map fst pb \<and> pa \<noteq> [] \<and> sum_sq_dev (map snd pb) = 0 \<and> hd (map snd pb) = 0 \<longrightarrow>
         cointegration_test sm_ols adfuller pa pb =
           map_sum id
             (coint_record (mean (map snd pa)) 0 (map (\<lambda>v. v - mean (map snd pa)) (map snd pa)))
             (adfuller (map (\<lambda>v. v - mean (map snd pa)) (map snd pa))))
   \<and> (map fst pa = map fst pb \<and> pa \<noteq> [] \<and> sum_sq_dev (map snd pb) \<noteq> 0 \<longrightarrow>
         cointegration_test sm_ols adfuller pa pb =
           map_sum id
             (coint_record (ols_intercept (map snd pb) (map snd pa)) (ols_slope (map snd pb) (map snd pa))
                (ols_residuals (ols_intercept (map snd pb) (map snd pa))
                   (ols_slope (map snd pb) (map snd pa)) (map snd pb) (map snd pa)))
             (adfuller
                (ols_residuals (ols_intercept (map snd pb) (map snd pa))
                   (ols_slope (map snd pb) (map snd pa)) (map snd pb) (map snd pa))))"
proof (intro conjI)
  show "(\<exists>e. cointegration_test ols adfuller pa pb = Inl e) \<longleftrightarrow>
      (\<exists>e. ols pa pb = Inl e)
      \<or> (\<exists>m. ols pa pb = Inr m \<and> (length (params m) < 2 \<or> (\<exists>e. adfuller (resid m) = Inl e)))"
  proof (cases "ols pa pb")
    case (Inl e)
    then show ?thesis by (simp add: cointegration_test_cases)
  next
    case (Inr m)
    then show ?thesis
      by (cases "adfuller (resid m)") (simp_all add: cointegration_test_cases)
  qed
  show "\<forall>m adf. ols pa pb = Inr m \<and> 2 \<le> length (params m) \<and> adfuller (resid m) = Inr adf \<longrightarrow>
         cointegration_test ols adfuller pa pb
           = Inr (coint_record (params m ! 0) (params m ! 1) (resid m) adf)"
    by (simp add: cointegration_test_cases)
  show "map fst pa = map fst pb \<and> pa \<noteq> [] \<and> sum_sq_dev (map snd pb) = 0 \<and> hd (map snd pb) \<noteq> 0 \<longrightarrow>
         cointegration_test sm_ols adfuller pa pb = Inl IndexError"
    using cointegration_constant_x by blast
  show "map fst pa = map fst pb \<and> pa \<noteq> [] \<and> sum_sq_dev (map snd pb) = 0 \<and> hd (map snd pb) = 0 \<longrightarrow>
         cointegration_test sm_ols adfuller pa pb =
           map_sum id
             (coint_record (mean (map snd pa)) 0 (map (\<lambda>v. v - mean (map snd pa)) (map snd pa)))
             (adfuller (map (\<lambda>v. v - mean (map snd pa)) (map snd pa)))"
    using cointegration_zero_x by blast
  show "map fst pa = map fst pb \<and> pa \<noteq> [] \<and> sum_sq_dev (map snd pb) \<noteq> 0 \<longrightarrow>
         cointegration_test sm_ols adfuller pa pb =
           map_sum id
             (coint_record (ols_intercept (map snd pb) (map snd pa)) (ols_slope (map snd pb) (map snd pa))
                (ols_residuals (ols_intercept (map snd pb) (map snd pa))
                   (ols_slope (map snd pb) (map snd pa)) (map snd pb) (map snd pa)))
             (adfuller
                (ols_residuals (ols_intercept (map snd pb) (map snd pa))
                   (ols_slope (map snd pb) (map snd pa)) (map snd pb) (map snd pa)))"
    using cointegration_regular_x by blast
qed

text \<open>
  The twelve prices against the rising series (a fit with two parameters; the test returns
  when the ADF test does and fails with its error otherwise), against the constant 5 and
  against zero.
\<close>

theorem cointegration_test_witness:
  "(\<exists>m. sm_ols twelve_y ramp_x = Inr m \<and> 2 \<le> length (params m))
   \<and> (\<forall>adf. cointegration_test sm_ols (\<lambda>residuals. Inr adf) twelve_y ramp_x
         = Inr (coint_record (619 / 66) (141 / 286)
                  (ols_residuals (619 / 66) (141 / 286) (map snd ramp_x) (map snd twelve_y)) adf))
   \<and> (\<forall>e. cointegration_test sm_ols (\<lambda>residuals. Inl e) twelve_y ramp_x = Inl e)
   \<and> sum_sq_dev (map snd five_x) = 0 \<and> hd (map snd five_x) = 5
   \<and> (\<forall>adfuller. cointegration_test sm_ols adfuller twelve_y five_x = Inl IndexError)
   \<and> sum_sq_dev (map snd zero_x) = 0 \<and> hd (map snd zero_x) = 0
   \<and> (\<forall>adf. cointegration_test sm_ols (\<lambda>residuals. Inr adf) twelve_y zero_x
         = Inr (coint_record (151 / 12) 0 (map (\<lambda>v. v - 151 / 12) (map snd twelve_y)) adf))"
proof (intro conjI allI)
  show "\<exists>m. sm_ols twelve_y ramp_x = Inr m \<and> 2 \<le> length (params m)"
    by (simp add: sm_ols_ramp)
  show "sum_sq_dev (map snd five_x) = 0" by (rule five_x_facts)
  show "hd (map snd five_x) = 5" by (simp add: five_x_def)
  show "sum_sq_dev (map snd zero_x) = 0" by (rule zero_x_facts)
  show "hd (map snd zero_x) = 0" by (rule zero_x_facts)
next
  fix adf
  have h: "sm_ols twelve_y ramp_x
             = Inr \<lparr>params = [619 / 66, 141 / 286],
                    resid = ols_residuals (619 / 66) (141 / 286) (map snd ramp_x) (map snd twelve_y)\<rparr>
           \<and> 2 \<le> length (params \<lparr>params = [619 / 66, 141 / 286 :: real],
                    resid = ols_residuals (619 / 66) (141 / 286) (map snd ramp_x) (map snd twelve_y)\<rparr>)
           \<and> (\<lambda>residuals. Inr adf :: py_error + adf_result)
                (resid \<lparr>params = [619 / 66, 141 / 286 :: real],
                    resid = ols_residuals (619 / 66) (141 / 286) (map snd ramp_x) (map snd twelve_y)\<rparr>)
               = Inr adf"
    by (simp add: sm_ols_ramp)
  from cointegration_test_no_variance_check [of sm_ols "\<lambda>residuals. Inr adf" twelve_y ramp_x] h
  have "cointegration_test sm_ols (\<lambda>residuals. Inr adf) twelve_y ramp_x
          = Inr (coint_record
                   (params \<lparr>params = [619 / 66, 141 / 286 :: real],
                      resid = ols_residuals (619 / 66) (141 / 286) (map snd ramp_x) (map snd twelve_y)\<rparr> ! 0)
                   (params \<lparr>params = [619 / 66, 141 / 286 :: real],
                      resid = ols_residuals (619 / 66) (141 / 286) (map snd ramp_x) (map snd twelve_y)\<rparr> ! 1)
                   (resid \<lparr>params = [619 / 66, 141 / 286 :: real],
                      resid = ols_residuals (619 / 66) (141 / 286) (map snd ramp_x) (map snd twelve_y)\<rparr>)
                   adf)"
    by blast
  then show "cointegration_test sm_ols (\<lambda>residuals. Inr adf) twelve_y ramp_x
         = Inr (coint_record (619 / 66) (141 / 286)
                  (ols_residuals (619 / 66) (141 / 286) (map snd ramp_x) (map snd twelve_y)) adf)"
    by simp
next
  fix e
  have "\<exists>m. sm_ols twelve_y ramp_x = Inr m
          \<and> (length (params m) < 2 \<or> (\<exists>e'. (\<lambda>residuals. Inl e :: py_error + adf_result) (resid m) = Inl e'))"
    by (simp add: sm_ols_ramp)
  with cointegration_test_no_variance_check [of sm_ols "\<lambda>residuals. Inl e" twelve_y ramp_x]
  obtain e' where e': "cointegration_test sm_ols (\<lambda>residuals. Inl e) twelve_y ramp_x = Inl e'"
    by blast
  then show "cointegration_test sm_ols (\<lambda>residuals. Inl e) twelve_y ramp_x = Inl e"
    by (simp add: cointegration_test_cases sm_ols_ramp)
next
  fix adfuller
  have "map fst twelve_y = map fst five_x \<and> twelve_y \<noteq> [] \<and> sum_sq_dev (map snd five_x) = 0
          \<and> hd (map snd five_x) \<noteq> 0"
    by (simp add: five_x_facts zero_x_facts)
  with cointegration_test_no_variance_check [of sm_ols adfuller twelve_y five_x]
  show "cointegration_test sm_ols adfuller twelve_y five_x = Inl IndexError" by blast
next
  fix adf
  have "map fst twelve_y = map fst zero_x \<and> twelve_y \<noteq> [] \<and> sum_sq_dev (map snd zero_x) = 0
          \<and> hd (map snd zero_x) = 0"
    by (simp add: zero_x_facts)
  with cointegration_test_no_variance_check [of sm_ols "\<lambda>residuals. Inr adf" twelve_y zero_x]
  have "cointegration_test sm_ols (\<lambda>residuals. Inr adf) twelve_y zero_x =
           map_sum id
             (coint_record (mean (map snd twelve_y)) 0
                (map (\<lambda>v. v - mean (map snd twelve_y)) (map snd twelve_y)))
             ((\<lambda>residuals. Inr adf) (map (\<lambda>v. v - mean (map snd twelve_y)) (map snd twelve_y)))"
    by blast
  then show "cointegration_test sm_ols (\<lambda>residuals. Inr adf) twelve_y zero_x
         = Inr (coint_record (151 / 12) 0 (map (\<lambda>v. v - 151 / 12) (map snd twelve_y)) adf)"
    by (simp add: mean_twelve_y)
qed



section \<open>Properties of the pair scanner\<close>

text \<open>The two loops collect the outcomes of the unordered pairs, in order.\<close>

lemma scan_inner_eq:
  "scan_inner ols adfuller threshold min_periods a bs results
     = results @ List.map_filter (scan_pair ols adfuller threshold min_periods a) bs"
  by (induction bs arbitrary: results) (simp_all split: option.splits)

lemma map_filter_append:
  "List.map_filter f (xs @ ys) = List.map_filter f xs @ List.map_filter f ys"
  by (simp add: map_filter_def)

lemma map_filter_map_Pair:
  "List.map_filter (\<lambda>(a, b). f a b) (map (Pair a) bs) = List.map_filter (f a) bs"
  by (induction bs) (simp_all split: option.splits)

lemma scan_outer_eq:
  "scan_outer ols adfuller threshold min_periods stock_prices results
     = results @ List.map_filter (\<lambda>(a, b). scan_pair ols adfuller threshold min_periods a b)
                  (unordered_pairs stock_prices)"
  by (induction stock_prices arbitrary: results)
    (simp_all add: scan_inner_eq map_filter_append map_filter_map_Pair)

lemma map_filter_cong_set:
  "(\<And>x. x \<in> set xs \<Longrightarrow> f x = g x) \<Longrightarrow> List.map_filter f xs = List.map_filter g xs"
  by (induction xs) (simp_all split: option.splits)

lemma set_map_filter: "set (List.map_filter f xs) = {y. \<exists>x\<in>set xs. f x = Some y}"
  by (induction xs) (auto split: option.splits)

lemma unordered_pairs_set:
  "(a, b) \<in> set (unordered_pairs xs) \<Longrightarrow> a \<in> set xs \<and> b \<in> set xs"
  by (induction xs) auto

text \<open>
  Two series with the same distinct timestamps are their own alignment.
\<close>

lemma loc_self:
  "distinct (map fst s) \<Longrightarrow> loc (map fst s) s = s"
proof (induction s)
  case Nil
  then show ?case by (simp add: loc_def)
next
  case (Cons kv s)
  obtain k v where kv: "kv = (k, v)" by (cases kv)
  from Cons.prems kv have k: "k \<notin> set (map fst s)" and d: "distinct (map fst s)" by simp_all
  have "List.map_filter (\<lambda>t. map_option (Pair t) (map_of ((k, v) # s) t)) (map fst s)
          = List.map_filter (\<lambda>t. map_option (Pair t) (map_of s t)) (map fst s)"
    using k by (intro map_filter_cong_set) auto
  also have "\<dots> = s" using Cons.IH [OF d] by (simp add: loc_def)
  finally show ?case by (simp add: loc_def kv)
qed

lemma align_same_index:
  assumes "map fst pa = map fst pb" and "distinct (map fst pa)"
  shows "align pa pb = (pa, pb)"
proof -
  have i: "index_intersection (map fst pa) (map fst pb) = map fst pa"
    using assms(1) by (simp add: index_intersection_def)
  have "loc (map fst pa) pa = pa" using assms(2) by (rule loc_self)
  moreover have "loc (map fst pa) pb = pb" using assms loc_self [of pb] by simp
  ultimately show ?thesis by (simp add: align_def i)
qed

text \<open>
  A pair with different indexes never gives a result when the regression refuses such
  inputs: the exception is caught in line 134 and the pair is skipped.
\<close>

lemma test_pair_unaligned:
  assumes "raises_on_unaligned ols" and "map fst (snd a) \<noteq> map fst (snd b)"
  shows "test_pair ols adfuller threshold a b = None"
proof -
  from assms obtain e where "ols (snd a) (snd b) = Inl e"
    unfolding raises_on_unaligned_def by blast
  then have "cointegration_test ols adfuller (snd a) (snd b) = Inl e"
    by (simp add: cointegration_test_def)
  then show ?thesis by (simp add: test_pair_def Let_def)
qed

lemma scan_pair_overlap:
  assumes "raises_on_unaligned ols"
      and "distinct (map fst (snd a))" and "distinct (map fst (snd b))"
  shows "scan_pair ols adfuller threshold min_periods a b
           = (if overlap_below (snd a) (snd b) min_periods then None
              else test_pair ols adfuller threshold a b)"
proof (cases "map fst (snd a) = map fst (snd b)")
  case True
  from True assms(2) have "align (snd a) (snd b) = (snd a, snd b)" by (rule align_same_index)
  then have "overlap_below (snd a) (snd b) min_periods = below_min_periods (snd a) (snd b) min_periods"
    by (simp add: overlap_below_def below_min_periods_def)
  then show ?thesis by (simp add: scan_pair_def)
next
  case False
  with assms(1) have "test_pair ols adfuller threshold a b = None" by (rule test_pair_unaligned)
  then show ?thesis by (simp add: scan_pair_def)
qed

lemma scan_as_overlap_scan:
  assumes "raises_on_unaligned ols"
      and "\<forall>s\<in>set stock_prices. distinct (map fst (snd s))"
  shows "find_cointegrated_pairs ols adfuller stock_prices threshold min_periods
     = sort_key p_value
         (List.map_filter
            (\<lambda>(a, b). if overlap_below (snd a) (snd b) min_periods then None
                       else test_pair ols adfuller threshold a b)
            (unordered_pairs stock_prices))"
proof -
  have "List.map_filter (\<lambda>(a, b). scan_pair ols adfuller threshold min_periods a b)
            (unordered_pairs stock_prices)
      = List.map_filter
            (\<lambda>(a, b). if overlap_below (snd a) (snd b) min_periods then None
                       else test_pair ols adfuller threshold a b)
            (unordered_pairs stock_prices)"
  proof (rule map_filter_cong_set)
    fix x assume x: "x \<in> set (unordered_pairs stock_prices)"
    obtain a b where ab: "x = (a, b)" by (cases x)
    from x ab unordered_pairs_set [of a b stock_prices] assms(2)
    have "distinct (map fst (snd a))" "distinct (map fst (snd b))" by auto
    from scan_pair_overlap [OF assms(1) this] ab
    show "(case x of (a, b) \<Rightarrow> scan_pair ols adfuller threshold min_periods a b)
        = (case x of (a, b) \<Rightarrow> if overlap_below (snd a) (snd b) min_periods then None
                       else test_pair ols adfuller threshold a b)" by simp
  qed
  then show ?thesis by (simp add: find_cointegrated_pairs_def scan_outer_eq)
qed

lemma sm_ols_raises_on_unaligned: "raises_on_unaligned sm_ols"
  by (simp add: raises_on_unaligned_def sm_ols_def)

lemma overlap_ab_below: "overlap_below overlap_a overlap_b 3"
  by (simp add: overlap_below_def align_def index_intersection_def loc_def overlap_a_def
      overlap_b_def Let_def)

lemma against_correlation:
  "flt (calculate_correlation against_a against_b) (Some (85 / 100))"
proof -
  define c :: real where "c = - (189 / 4400) / (sqrt (441 / 24200) * sqrt (81 / 800))"
  have "calculate_correlation against_a against_b
          = Some (- (189 / 4400) / (sqrt (441 / 24200) * sqrt (81 / 800)))"
    by (simp add: calculate_correlation_def series_returns_def pct_change_def against_a_def
      against_b_def index_intersection_def loc_def pearson_def Let_def
      fsub_def fdiv_def power2_eq_square)
  then have eq: "calculate_correlation against_a against_b = Some c" by (simp only: c_def)
  have "c < 0" unfolding c_def by (intro divide_neg_pos mult_pos_pos) simp_all
  then have "c < 85 / 100" by simp
  then show ?thesis by (simp add: eq flt_def)
qed

lemma against_not_below: "\<not> overlap_below against_a against_b 3"
  by (simp add: overlap_below_def align_def index_intersection_def loc_def against_a_def
      against_b_def Let_def)

lemma shifted_not_below: "\<not> overlap_below shifted_a shifted_b 3"
  by (simp add: overlap_below_def align_def index_intersection_def loc_def shifted_a_def
      shifted_b_def Let_def)

text \<open>
  C4, as stated: a pair would be skipped exactly when one of its aligned series has fewer
  than \<open>min_periods\<close> points.  Two pairs whose aligned series both have three points are
  skipped with \<open>min_periods = 3\<close>: the first, on equal timestamps, because the correlation of
  its returns is below the threshold \<open>0.85\<close>, whatever the library does; the second, on
  timestamps shifted by one, because the regression refuses the unaligned indexes.
\<close>

theorem scan_exactly_when_counterexample:
  "\<not> overlap_below against_a against_b 3
   \<and> (\<forall>ols adfuller.
        find_cointegrated_pairs ols adfuller [(''A'', against_a), (''B'', against_b)] (85 / 100) 3 = [])
   \<and> \<not> overlap_below shifted_a shifted_b 3
   \<and> (\<forall>adfuller threshold.
        find_cointegrated_pairs sm_ols adfuller [(''A'', shifted_a), (''B'', shifted_b)] threshold 3 = [])"
proof (intro conjI allI)
  show "\<not> overlap_below against_a against_b 3" by (rule against_not_below)
  show "\<not> overlap_below shifted_a shifted_b 3" by (rule shifted_not_below)
next
  fix ols adfuller
  have "test_pair ols adfuller (85 / 100) (''A'', against_a) (''B'', against_b) = None"
    using against_correlation by (simp add: test_pair_def Let_def)
  then show "find_cointegrated_pairs ols adfuller [(''A'', against_a), (''B'', against_b)] (85 / 100) 3 = []"
    by (simp add: find_cointegrated_pairs_def scan_pair_def)
next
  fix adfuller threshold
  have "map fst (snd (''A'', shifted_a)) \<noteq> map fst (snd (''B'', shifted_b))"
    by (simp add: shifted_a_def shifted_b_def)
  with sm_ols_raises_on_unaligned
  have "test_pair sm_ols adfuller threshold (''A'', shifted_a) (''B'', shifted_b) = None"
    by (rule test_pair_unaligned)
  then show "find_cointegrated_pairs sm_ols adfuller [(''A'', shifted_a), (''B'', shifted_b)] threshold 3 = []"
    by (simp add: find_cointegrated_pairs_def scan_pair_def)
qed

text \<open>
  C4, amended.  When the regression refuses inputs with different indexes, as the library's
  does, and the timestamps of every series are distinct, the scanner skips a pair whenever
  one of its aligned series has fewer than \<open>min_periods\<close> points: the scan returns what a scan
  with that check in front of the correlation filter and the test returns, and every result
  comes from a pair whose aligned series both have at least \<open>min_periods\<close> points.
\<close>

theorem scan_skips_short_overlap:
  assumes "raises_on_unaligned ols"
      and "\<forall>s\<in>set stock_prices. distinct (map fst (snd s))"
  shows "find_cointegrated_pairs ols adfuller stock_prices threshold min_periods
     = sort_key p_value
         (List.map_filter
            (\<lambda>(a, b). if overlap_below (snd a) (snd b) min_periods then None
                       else test_pair ols adfuller threshold a b)
            (unordered_pairs stock_prices))
   \<and> (\<forall>r\<in>set (find_cointegrated_pairs ols adfuller stock_prices threshold min_periods).
        \<exists>a b. (a, b) \<in> set (unordered_pairs stock_prices)
          \<and> stock_a r = fst a \<and> stock_b r = fst b
          \<and> min_periods \<le> int (length (fst (align (snd a) (snd b))))
          \<and> min_periods \<le> int (length (snd (align (snd a) (snd b)))))"
proof
  show eq: "find_cointegrated_pairs ols adfuller stock_prices threshold min_periods
     = sort_key p_value
         (List.map_filter
            (\<lambda>(a, b). if overlap_below (snd a) (snd b) min_periods then None
                       else test_pair ols adfuller threshold a b)
            (unordered_pairs stock_prices))"
    using assms by (rule scan_as_overlap_scan)
  show "\<forall>r\<in>set (find_cointegrated_pairs ols adfuller stock_prices threshold min_periods).
        \<exists>a b. (a, b) \<in> set (unordered_pairs stock_prices)
          \<and> stock_a r = fst a \<and> stock_b r = fst b
          \<and> min_periods \<le> int (length (fst (align (snd a) (snd b))))
          \<and> min_periods \<le> int (length (snd (align (snd a) (snd b))))"
  proof
    fix r assume "r \<in> set (find_cointegrated_pairs ols adfuller stock_prices threshold min_periods)"
    then obtain x where x: "x \<in> set (unordered_pairs stock_prices)"
      and r: "(case x of (a, b) \<Rightarrow> if overlap_below (snd a) (snd b) min_periods then None
                       else test_pair ols adfuller threshold a b) = Some r"
      unfolding eq by (auto simp: set_map_filter)
    obtain a b where ab: "x = (a, b)" by (cases x)
    from r ab have nb: "\<not> overlap_below (snd a) (snd b) min_periods"
      and t: "test_pair ols adfuller threshold a b = Some r"
      by (auto split: if_splits)
    from t have "stock_a r = fst a \<and> stock_b r = fst b"
      by (auto simp: test_pair_def Let_def split: if_splits sum.splits)
    with x ab nb show "\<exists>a b. (a, b) \<in> set (unordered_pairs stock_prices)
          \<and> stock_a r = fst a \<and> stock_b r = fst b
          \<and> min_periods \<le> int (length (fst (align (snd a) (snd b))))
          \<and> min_periods \<le> int (length (snd (align (snd a) (snd b))))"
      unfolding overlap_below_def by (intro exI [of _ a] exI [of _ b]) simp
  qed
qed

text \<open>
  The two series of three points that share two timestamps: both are long enough for
  \<open>min_periods = 3\<close>, their overlap is not, and the scan returns nothing.
\<close>

theorem scan_skips_short_overlap_witness:
  "raises_on_unaligned sm_ols
   \<and> \<not> below_min_periods overlap_a overlap_b 3
   \<and> overlap_below overlap_a overlap_b 3
   \<and> (\<forall>adfuller threshold.
        find_cointegrated_pairs sm_ols adfuller [(''A'', overlap_a), (''B'', overlap_b)] threshold 3 = [])"
proof (intro conjI allI)
  show "raises_on_unaligned sm_ols" by (rule sm_ols_raises_on_unaligned)
  show "\<not> below_min_periods overlap_a overlap_b 3"
    by (simp add: below_min_periods_def overlap_a_def overlap_b_def)
  show "overlap_below overlap_a overlap_b 3" by (rule overlap_ab_below)
  fix adfuller threshold
  have d: "\<forall>s\<in>set [(''A'', overlap_a), (''B'', overlap_b)]. distinct (map fst (snd s))"
    by (simp add: overlap_a_def overlap_b_def)
  from scan_skips_short_overlap [OF sm_ols_raises_on_unaligned d, of adfuller threshold 3]
  show "find_cointegrated_pairs sm_ols adfuller [(''A'', overlap_a), (''B'', overlap_b)] threshold 3 = []"
    by (simp add: overlap_ab_below)
qed

text \<open>
  C8.  The list that the scanner returns is sorted by ascending p-value, for every
  instrument dictionary, threshold and period bound, and whatever the regression and the
  stationarity test return.
\<close>

theorem scan_sorted_by_p_value:
  "sorted (map p_value (find_cointegrated_pairs ols adfuller stock_prices threshold min_periods))"
  by (simp add: find_cointegrated_pairs_def)

end
